theory Spec2Isabelle
  imports Complex_Main "HOL-Library.Char_ord" "HOL-Library.List_Lexorder" "HOL-Library.Sublist"
    "HOL-Library.Multiset"
begin

section \<open>Cells, exceptions, dictionaries and the remote source\<close>

text \<open>
  A cell is one value of a pandas column or of a gspread record: a string, an integer, a
  number (floats are idealised as rationals), a parsed timestamp (nanoseconds since the
  epoch), or one of the two null markers NaN and NaT.
\<close>

datatype cell = CStr string | CInt int | CNum rat | CTime int | CNaN | CNaT

text \<open>An exception carries the message that \<^verbatim>\<open>str(e)\<close> returns.\<close>

datatype exn = Exception string

fun str :: "exn \<Rightarrow> string" where
  "str (Exception m) = m"

text \<open>\<^verbatim>\<open>str(KeyError(k))\<close> is the key between single quotes.\<close>

definition KeyError :: "string \<Rightarrow> exn" where
  "KeyError k = Exception ([CHR 0x27] @ k @ [CHR 0x27])"

text \<open>
  A Python dict keeps its keys in insertion order; \<^verbatim>\<open>d[k] = v\<close> overwrites
  the value of a key already present and appends a new key at the end.
\<close>

type_synonym pydict = "(string \<times> cell) list"

fun dict_set :: "string \<Rightarrow> cell \<Rightarrow> pydict \<Rightarrow> pydict" where
  "dict_set k v [] = [(k, v)]"
| "dict_set k v ((k', v') # d) = (if k' = k then (k, v) # d else (k', v') # dict_set k v d)"

text \<open>
  The remote source. \<^verbatim>\<open>gc.open(name)\<close> gives a spreadsheet or raises,
  \<^verbatim>\<open>sheet.worksheet(title)\<close> gives a worksheet or raises, and a worksheet
  answers the two retrieval calls, each with a value or an exception.
\<close>

record worksheet =
  get_all_records :: "exn + pydict list"
  get_all_values :: "exn + string list list"

type_synonym spreadsheet = "string \<Rightarrow> exn + worksheet"

type_synonym client = "string \<Rightarrow> exn + spreadsheet"

section \<open>The configuration registry\<close>

record location_cfg =
  sheet_name :: string
  years :: "int list"
  months :: "(int \<times> string list) list"

definition months_2025 :: "string list" where
  "months_2025 = [''May 25'', ''Jun 25'', ''Jul 25'', ''Aug 25'', ''Sep 25'', ''Oct 25'',
     ''Nov 25'', ''Dec 25'']"

definition LOCATIONS :: "(string \<times> location_cfg) list" where
  "LOCATIONS =
    [(''Oxford East'', \<lparr>sheet_name = ''Oxford East Monthly Tracker'', years = [2025],
        months = [(2025, months_2025)]\<rparr>),
     (''Milton Keynes'', \<lparr>sheet_name = ''Milton Keynes Monthly Tracker'', years = [2025],
        months = [(2025, months_2025)]\<rparr>),
     (''Berkhamsted'', \<lparr>sheet_name = ''Berkhamsted Monthly Revenue Tracker'', years = [2025],
        months = [(2025, months_2025)]\<rparr>),
     (''Basingstoke'', \<lparr>sheet_name = ''Basingstoke Monthly Tracker'', years = [2025],
        months = [(2025, months_2025)]\<rparr>),
     (''Aylesbury'', \<lparr>sheet_name = ''Aylesbury Monthly Tracker'', years = [2023, 2024, 2025],
        months =
          [(2023, [''Feb 23'', ''Mar 23'', ''Apr 23'', ''May 23'', ''Jun 23'', ''Jul 23'',
                   ''Aug 23'', ''Sep 23'', ''Oct 23'', ''Nov 23'', ''Dec 23'']),
           (2024, [''Jan 24'', ''Feb 24'', ''Mar 24'', ''Apr 24'', ''May 24'', ''Jun 24'',
                   ''Jul 24'', ''Aug 24'', ''Sep 24'', ''Oct 24'', ''Nov 24'', ''Dec 24'']),
           (2025, [''Jan 25'', ''Feb 25'', ''Mar 25'', ''Apr 25'', ''May 25'', ''Jun 25'',
                   ''Jul 25'', ''Aug 25'', ''Sep 25'', ''Oct 25'', ''Nov 25'', ''Dec 25''])]\<rparr>)]"

text \<open>
  A PeriodKey is valid when the registry lists the location, the year for that location and
  the period label for that year.
\<close>

definition valid_period_key :: "string \<Rightarrow> int \<Rightarrow> string \<Rightarrow> bool" where
  "valid_period_key location year month =
     (case map_of LOCATIONS location of
        None \<Rightarrow> False
      | Some cfg \<Rightarrow>
          year \<in> set (years cfg) \<and>
          (case map_of (months cfg) year of
             None \<Rightarrow> False
           | Some ms \<Rightarrow> month \<in> set ms))"

section \<open>Data frames\<close>

text \<open>
  A data frame is its column labels and its rows; every row has one cell per column.
  \<^verbatim>\<open>pd.DataFrame()\<close> has neither columns nor rows, and \<^verbatim>\<open>df.empty\<close>
  holds when either axis has length 0.
\<close>

record frame =
  columns :: "string list"
  rows :: "cell list list"

definition empty_frame :: frame where
  "empty_frame = \<lparr>columns = [], rows = []\<rparr>"

definition empty :: "frame \<Rightarrow> bool" where
  "empty df = (columns df = [] \<or> rows df = [])"

text \<open>The labels of a list in the order of their first occurrence.\<close>

fun unique :: "'a list \<Rightarrow> 'a list" where
  "unique [] = []"
| "unique (x # xs) = x # unique (filter (\<lambda>y. y \<noteq> x) xs)"

text \<open>
  \<^verbatim>\<open>pd.DataFrame(data)\<close> for a list of dicts: the columns are the keys in the order
  of their first appearance over the records, and a record without a key has NaN there.
\<close>

definition DataFrame :: "pydict list \<Rightarrow> frame" where
  "DataFrame data =
     (let cols = unique (concat (map (map fst) data))
      in \<lparr>columns = cols,
          rows = map (\<lambda>d. map (\<lambda>c. case map_of d c of None \<Rightarrow> CNaN | Some v \<Rightarrow> v) cols) data\<rparr>)"

text \<open>\<^verbatim>\<open>df.iloc[:, :n]\<close> keeps the first \<open>n\<close> columns.\<close>

definition iloc_cols :: "nat \<Rightarrow> frame \<Rightarrow> frame" where
  "iloc_cols n df = \<lparr>columns = take n (columns df), rows = map (take n) (rows df)\<rparr>"

fun index_of :: "'a \<Rightarrow> 'a list \<Rightarrow> nat option" where
  "index_of x [] = None"
| "index_of x (y # ys) = (if x = y then Some 0 else map_option Suc (index_of x ys))"

text \<open>\<^verbatim>\<open>df[name]\<close> reads a column and raises KeyError when there is none.\<close>

definition get_col :: "string \<Rightarrow> frame \<Rightarrow> exn + cell list" where
  "get_col name df =
     (case index_of name (columns df) of
        None \<Rightarrow> Inl (KeyError name)
      | Some i \<Rightarrow> Inr (map (\<lambda>r. r ! i) (rows df)))"

text \<open>
  \<^verbatim>\<open>df[name] = values\<close> replaces the column when the label exists and appends a new
  last column otherwise.
\<close>

definition set_col :: "string \<Rightarrow> cell list \<Rightarrow> frame \<Rightarrow> frame" where
  "set_col name vals df =
     (case index_of name (columns df) of
        None \<Rightarrow> \<lparr>columns = columns df @ [name],
                  rows = map (\<lambda>(r, v). r @ [v]) (zip (rows df) vals)\<rparr>
      | Some i \<Rightarrow> \<lparr>columns = columns df,
                    rows = map (\<lambda>(r, v). r[i := v]) (zip (rows df) vals)\<rparr>)"

text \<open>\<^verbatim>\<open>df[name] = scalar\<close> broadcasts the scalar over the rows.\<close>

definition set_col_scalar :: "string \<Rightarrow> cell \<Rightarrow> frame \<Rightarrow> frame" where
  "set_col_scalar name v df = set_col name (replicate (length (rows df)) v) df"

definition isna :: "cell \<Rightarrow> bool" where
  "isna c = (c = CNaN \<or> c = CNaT)"

text \<open>\<^verbatim>\<open>df.dropna(subset=[name])\<close> keeps the rows whose cell in that column is not null.\<close>

definition dropna :: "string \<Rightarrow> frame \<Rightarrow> exn + frame" where
  "dropna name df =
     (case index_of name (columns df) of
        None \<Rightarrow> Inl (KeyError name)
      | Some i \<Rightarrow> Inr \<lparr>columns = columns df, rows = filter (\<lambda>r. \<not> isna (r ! i)) (rows df)\<rparr>)"

text \<open>
  The two pandas coercions with \<^verbatim>\<open>errors='coerce'\<close>. What counts as a number or as a
  timestamp is pandas' business, so the element parsers are parameters: \<open>pn c\<close> is the
  number a raw value coerces to, or \<open>None\<close> when coercion fails; \<open>pt col c\<close> is the
  timestamp of \<open>c\<close> parsed within its column (pandas may infer the format from the
  column), or \<open>None\<close> when parsing fails. A failure becomes NaN, respectively NaT.
\<close>

definition to_numeric :: "(cell \<Rightarrow> rat option) \<Rightarrow> cell list \<Rightarrow> cell list" where
  "to_numeric pn col = map (\<lambda>c. case pn c of None \<Rightarrow> CNaN | Some r \<Rightarrow> CNum r) col"

definition fillna :: "cell \<Rightarrow> cell list \<Rightarrow> cell list" where
  "fillna v col = map (\<lambda>c. if isna c then v else c) col"

definition to_datetime :: "(cell list \<Rightarrow> cell \<Rightarrow> int option) \<Rightarrow> cell list \<Rightarrow> cell list" where
  "to_datetime pt col = map (\<lambda>c. case pt col c of None \<Rightarrow> CNaT | Some t \<Rightarrow> CTime t) col"

section \<open>The row normalizer: load_sheet_data\<close>

text \<open>Sequencing of steps that may raise: the first exception ends the block.\<close>

definition and_then :: "exn + 'a \<Rightarrow> ('a \<Rightarrow> exn + 'b) \<Rightarrow> exn + 'b" where
  "and_then m f = (case m of Inl e \<Rightarrow> Inl e | Inr x \<Rightarrow> f x)"

text \<open>
  The raw-grid fallback (the handler of the inner \<^verbatim>\<open>try\<close>). The header is cut to its
  first four labels; a data row shorter than the cut header is skipped; every other data
  row becomes a dict filled label by label.
\<close>

definition clean_headers_of :: "string list \<Rightarrow> string list" where
  "clean_headers_of headers = (if length headers \<ge> 4 then take 4 headers else headers)"

definition row_dict_of :: "string list \<Rightarrow> string list \<Rightarrow> pydict" where
  "row_dict_of clean_headers row =
     foldl (\<lambda>row_dict (i, header).
              dict_set header (if i < length row then CStr (row ! i) else CStr []) row_dict)
       [] (enumerate 0 clean_headers)"

definition raw_grid_data :: "string list list \<Rightarrow> pydict list" where
  "raw_grid_data all_values =
     (if length all_values > 1 then
        (let headers = hd all_values;
             clean_headers = clean_headers_of headers;
             data_rows = tl all_values
         in map (row_dict_of clean_headers)
              (filter (\<lambda>row. length row \<ge> length clean_headers) data_rows))
      else [])"

text \<open>The inner \<^verbatim>\<open>try\<close>: header-keyed retrieval, with the fallback on a "duplicates" error.\<close>

definition fetch_data :: "worksheet \<Rightarrow> exn + pydict list" where
  "fetch_data ws =
     (case get_all_records ws of
        Inr data \<Rightarrow> Inr data
      | Inl e \<Rightarrow>
          if sublist ''duplicates'' (str e)
          then and_then (get_all_values ws) (\<lambda>all_values. Inr (raw_grid_data all_values))
          else Inl e)"

text \<open>The rest of the outer \<^verbatim>\<open>try\<close> block, from \<^verbatim>\<open>if not data\<close> on.\<close>

definition normalize_rows ::
  "(cell \<Rightarrow> rat option) \<Rightarrow> (cell list \<Rightarrow> cell \<Rightarrow> int option) \<Rightarrow>
   string \<Rightarrow> int \<Rightarrow> string \<Rightarrow> pydict list \<Rightarrow> exn + frame" where
  "normalize_rows pn pt location year month data =
     (if data = [] then Inr empty_frame
      else
        let df = DataFrame data in
        if length (columns df) \<ge> 4 then
          (let df1 = iloc_cols 4 df;
               df2 = df1\<lparr>columns := [''DateTime'', ''Product'', ''Quantity'', ''Amount'']\<rparr>
           in and_then (get_col ''Amount'' df2) (\<lambda>amount.
              let df3 = set_col ''Amount'' (fillna (CNum 0) (to_numeric pn amount)) df2
              in and_then (get_col ''DateTime'' df3) (\<lambda>datetime.
                 let df4 = set_col ''DateTime'' (to_datetime pt datetime) df3
                 in and_then (dropna ''DateTime'' df4) (\<lambda>df5.
                    let df6 = set_col_scalar ''Location'' (CStr location) df5;
                        df7 = set_col_scalar ''Year'' (CInt year) df6;
                        df8 = set_col_scalar ''Month'' (CStr month) df7
                    in Inr df8))))
        else Inr empty_frame)"

text \<open>
  The start of the outer \<^verbatim>\<open>try\<close> block: registry lookup, opening the spreadsheet
  and the tab, and the retrieval. An unknown location raises KeyError.
\<close>

definition open_and_fetch :: "client \<Rightarrow> string \<Rightarrow> string \<Rightarrow> exn + pydict list" where
  "open_and_fetch gc location month =
     (case map_of LOCATIONS location of
        None \<Rightarrow> Inl (KeyError location)
      | Some cfg \<Rightarrow>
          and_then (gc (sheet_name cfg)) (\<lambda>sheet.
          and_then (sheet month) (\<lambda>worksheet.
          fetch_data worksheet)))"

text \<open>The body of the outer \<^verbatim>\<open>try\<close>.\<close>

definition load_sheet_data_body ::
  "(cell \<Rightarrow> rat option) \<Rightarrow> (cell list \<Rightarrow> cell \<Rightarrow> int option) \<Rightarrow>
   client \<Rightarrow> string \<Rightarrow> int \<Rightarrow> string \<Rightarrow> exn + frame" where
  "load_sheet_data_body pn pt gc location year month =
     and_then (open_and_fetch gc location month) (normalize_rows pn pt location year month)"

text \<open>The text handed to \<^verbatim>\<open>st.error\<close> by the handler of the outer \<^verbatim>\<open>try\<close>.\<close>

definition error_message :: "string \<Rightarrow> string \<Rightarrow> exn \<Rightarrow> string" where
  "error_message location month e =
     ''Error loading data for '' @ location @ '' '' @ month @ '': '' @ str e"

text \<open>
  The function as the caller sees it: the returned frame, and the reported error when the
  handler of the outer \<^verbatim>\<open>try\<close> ran.
\<close>

definition load_sheet_data ::
  "(cell \<Rightarrow> rat option) \<Rightarrow> (cell list \<Rightarrow> cell \<Rightarrow> int option) \<Rightarrow>
   client \<Rightarrow> string \<Rightarrow> int \<Rightarrow> string \<Rightarrow> frame \<times> string option" where
  "load_sheet_data pn pt gc location year month =
     (case load_sheet_data_body pn pt gc location year month of
        Inr df \<Rightarrow> (df, None)
      | Inl e \<Rightarrow> (empty_frame, Some (error_message location month e)))"

section \<open>The metrics aggregator: calculate_revenue_metrics\<close>

text \<open>
  The aggregator and the product analysis read the table that \<open>load_sheet_data\<close>
  returned, and of it only the columns Product and Amount and the number of rows. A row of
  that table is a record with the seven columns; Amount is a number and DateTime a
  timestamp there, and product labels are strings. The empty table is the table without rows.
\<close>

record txrow =
  DateTime :: int
  Product :: string
  Quantity :: cell
  Amount :: rat
  Location :: string
  Year :: int
  Month :: string

type_synonym table = "txrow list"

record metrics =
  total_revenue :: rat
  transaction_count :: nat
  avg_transaction :: rat
  unique_products :: nat
  top_product :: string
  daily_average :: rat

text \<open>
  \<^verbatim>\<open>df.groupby('Product')['Amount'].sum()\<close>: one entry per distinct product, the group
  keys in ascending order (groupby sorts its keys), each with the sum over its rows.
\<close>

definition groupby_sum :: "table \<Rightarrow> (string \<times> rat) list" where
  "groupby_sum df =
     map (\<lambda>p. (p, sum_list (map Amount (filter (\<lambda>r. Product r = p) df))))
       (sort (remdups (map Product df)))"

text \<open>
  \<^verbatim>\<open>idxmax()\<close> of the non-empty series \<open>(k, v) # xs\<close>: the label of the first
  occurrence of the maximum.
\<close>

fun idxmax :: "'k \<times> rat \<Rightarrow> ('k \<times> rat) list \<Rightarrow> 'k" where
  "idxmax (k, v) [] = k"
| "idxmax (k, v) ((k', v') # xs) = (if v < v' then idxmax (k', v') xs else idxmax (k, v) xs)"

definition calculate_revenue_metrics :: "table \<Rightarrow> metrics" where
  "calculate_revenue_metrics df =
     (if df = [] then
        \<lparr>total_revenue = 0, transaction_count = 0, avg_transaction = 0, unique_products = 0,
         top_product = ''N/A'', daily_average = 0\<rparr>
      else
        let total_revenue = sum_list (map Amount df);
            transaction_count = length df;
            avg_transaction =
              (if transaction_count > 0 then total_revenue / of_nat transaction_count else 0);
            unique_products = length (remdups (map Product df));
            product_revenue = groupby_sum df;
            top_product = (case product_revenue of [] \<Rightarrow> ''N/A'' | x # xs \<Rightarrow> idxmax x xs);
            daily_average = total_revenue / 30
        in \<lparr>total_revenue = total_revenue, transaction_count = transaction_count,
            avg_transaction = avg_transaction, unique_products = unique_products,
            top_product = top_product, daily_average = daily_average\<rparr>)"

section \<open>The product breakdown: create_product_analysis\<close>









section \<open>Notions used in the statements\<close>

text \<open>What the two coercions make of one raw value.\<close>

definition coerce_amount :: "(cell \<Rightarrow> rat option) \<Rightarrow> cell \<Rightarrow> cell" where
  "coerce_amount pn c = (case pn c of None \<Rightarrow> CNum 0 | Some r \<Rightarrow> CNum r)"

definition coerce_datetime :: "(cell list \<Rightarrow> cell \<Rightarrow> int option) \<Rightarrow> cell list \<Rightarrow> cell \<Rightarrow> cell" where
  "coerce_datetime pt col c = (case pt col c of None \<Rightarrow> CNaT | Some t \<Rightarrow> CTime t)"

text \<open>
  The rows of the fetched table cut to their first four cells, its first column (the raw
  timestamps), and the number of rows whose timestamp does not parse.
\<close>

definition raw_rows :: "pydict list \<Rightarrow> cell list list" where
  "raw_rows data = map (take 4) (rows (DataFrame data))"

definition timestamp_col :: "pydict list \<Rightarrow> cell list" where
  "timestamp_col data = map (\<lambda>r. r ! 0) (raw_rows data)"

definition unparsable_timestamps :: "(cell list \<Rightarrow> cell \<Rightarrow> int option) \<Rightarrow> pydict list \<Rightarrow> nat" where
  "unparsable_timestamps pt data =
     length (filter (\<lambda>c. pt (timestamp_col data) c = None) (timestamp_col data))"

text \<open>
  A tab with zero data rows: header-keyed retrieval returns no record, or it raises the
  "duplicates" error and the raw grid has at most the header row.
\<close>

definition zero_data_rows :: "worksheet \<Rightarrow> bool" where
  "zero_data_rows ws =
     (case get_all_records ws of
        Inr data \<Rightarrow> data = []
      | Inl e \<Rightarrow>
          sublist ''duplicates'' (str e) \<and>
          (case get_all_values ws of Inr grid \<Rightarrow> length grid \<le> 1 | Inl e' \<Rightarrow> False))"

text \<open>Python's \<^verbatim>\<open>dict(pairs)\<close>: the pairs are stored one after the other.\<close>

definition dict_of :: "(string \<times> cell) list \<Rightarrow> pydict" where
  "dict_of pairs = foldl (\<lambda>d (k, v). dict_set k v d) [] pairs"



section \<open>Concrete inputs\<close>

text \<open>
  Element parsers for the examples: integers, numbers and the text "12.50" coerce to
  numbers, the text "2025-05-01" parses as a timestamp, and nothing else does.
\<close>

definition pn0 :: "cell \<Rightarrow> rat option" where
  "pn0 c =
     (case c of
        CInt i \<Rightarrow> Some (of_int i)
      | CNum r \<Rightarrow> Some r
      | CStr s \<Rightarrow> (if s = ''12.50'' then Some (25 / 2) else None)
      | _ \<Rightarrow> None)"

definition pt0 :: "cell list \<Rightarrow> cell \<Rightarrow> int option" where
  "pt0 col c =
     (case c of
        CStr s \<Rightarrow> (if s = ''2025-05-01'' then Some 1746057600 else None)
      | _ \<Rightarrow> None)"

text \<open>A client that knows the Aylesbury spreadsheet with the single tab "May 25".\<close>

definition client_of :: "worksheet \<Rightarrow> client" where
  "client_of ws name =
     (if name = ''Aylesbury Monthly Tracker''
      then Inr (\<lambda>title. if title = ''May 25'' then Inr ws else Inl (Exception title))
      else Inl (Exception name))"


text \<open>The registry entry of Aylesbury, and the spreadsheet that \<open>client_of ws\<close> opens.\<close>

definition aylesbury_cfg :: location_cfg where
  "aylesbury_cfg =
     \<lparr>sheet_name = ''Aylesbury Monthly Tracker'', years = [2023, 2024, 2025],
      months =
        [(2023, [''Feb 23'', ''Mar 23'', ''Apr 23'', ''May 23'', ''Jun 23'', ''Jul 23'',
                 ''Aug 23'', ''Sep 23'', ''Oct 23'', ''Nov 23'', ''Dec 23'']),
         (2024, [''Jan 24'', ''Feb 24'', ''Mar 24'', ''Apr 24'', ''May 24'', ''Jun 24'',
                 ''Jul 24'', ''Aug 24'', ''Sep 24'', ''Oct 24'', ''Nov 24'', ''Dec 24'']),
         (2025, [''Jan 25'', ''Feb 25'', ''Mar 25'', ''Apr 25'', ''May 25'', ''Jun 25'',
                 ''Jul 25'', ''Aug 25'', ''Sep 25'', ''Oct 25'', ''Nov 25'', ''Dec 25''])]\<rparr>"

definition oxford_east_cfg :: location_cfg where
  "oxford_east_cfg =
     \<lparr>sheet_name = ''Oxford East Monthly Tracker'', years = [2025],
      months = [(2025, months_2025)]\<rparr>"

definition sheet_of :: "worksheet \<Rightarrow> spreadsheet" where
  "sheet_of ws title = (if title = ''May 25'' then Inr ws else Inl (Exception title))"

text \<open>
  A tab of two records: the first has an amount that does not coerce, the second a
  timestamp that does not parse.
\<close>

definition data_two_rows :: "pydict list" where
  "data_two_rows =
     [[(''Date'', CStr ''2025-05-01''), (''Item'', CStr ''A''), (''Qty'', CInt 1),
       (''Paid'', CStr ''abc'')],
      [(''Date'', CStr ''not-a-date''), (''Item'', CStr ''B''), (''Qty'', CInt 2),
       (''Paid'', CNum 3)]]"

definition ws_two_rows :: worksheet where
  "ws_two_rows = \<lparr>get_all_records = Inr data_two_rows, get_all_values = Inr []\<rparr>"

text \<open>A tab of one record with three columns, its timestamp parsable.\<close>

definition data_narrow :: "pydict list" where
  "data_narrow = [[(''Date'', CStr ''2025-05-01''), (''Item'', CStr ''A''), (''Paid'', CNum 3)]]"

definition ws_narrow :: worksheet where
  "ws_narrow = \<lparr>get_all_records = Inr data_narrow, get_all_values = Inr []\<rparr>"

text \<open>
  A tab whose header-keyed retrieval raises the "duplicates" error and whose raw grid has a
  header of six labels and one data row.
\<close>

definition grid_duplicates :: "string list list" where
  "grid_duplicates =
     [[''Date'', ''Item'', ''Qty'', ''Paid'', [], []],
      [''2025-05-01'', ''A'', ''1'', ''12.50'', [], []]]"

definition ws_duplicates :: worksheet where
  "ws_duplicates =
     \<lparr>get_all_records = Inl (Exception ''the header row in the worksheet contains duplicates''),
      get_all_values = Inr grid_duplicates\<rparr>"

text \<open>A tab without records.\<close>

definition ws_no_rows :: worksheet where
  "ws_no_rows = \<lparr>get_all_records = Inr [], get_all_values = Inr []\<rparr>"

text \<open>A grid whose only data row is shorter than the header.\<close>

definition grid_short_row :: "string list list" where
  "grid_short_row = [[''Date'', ''Item'', ''Qty'', ''Paid''], [''2025-05-01'']]"

text \<open>A tab whose header-keyed retrieval raises an error of another kind.\<close>

definition ws_api_error :: worksheet where
  "ws_api_error = \<lparr>get_all_records = Inl (Exception ''APIError''), get_all_values = Inr []\<rparr>"

text \<open>A tab where the "duplicates" error is followed by a failing raw-grid retrieval.\<close>

definition ws_duplicates_then_error :: worksheet where
  "ws_duplicates_then_error =
     \<lparr>get_all_records = Inl (Exception ''the header row in the worksheet contains duplicates''),
      get_all_values = Inl (Exception ''ConnectionError'')\<rparr>"

text \<open>A tab where the "duplicates" error is followed by a grid of the header row alone.\<close>

definition ws_duplicates_header_only :: worksheet where
  "ws_duplicates_header_only =
     \<lparr>get_all_records = Inl (Exception ''the header row in the worksheet contains duplicates''),
      get_all_values = Inr [[''Date'', ''Item'', ''Qty'', ''Paid'', [], []]]\<rparr>"

section \<open>Facts about frames\<close>

lemma map_zip_map: "map (\<lambda>(r, v). g r v) (zip xs (map h xs)) = map (\<lambda>r. g r (h r)) xs"
  by (induction xs) auto

lemma map_zip_replicate:
  "map (\<lambda>(r, v). g r v) (zip xs (replicate (length xs) c)) = map (\<lambda>r. g r c) xs"
  by (induction xs) auto

lemma fillna_to_numeric: "fillna (CNum 0) (to_numeric pn col) = map (coerce_amount pn) col"
  by (auto simp: fillna_def to_numeric_def coerce_amount_def isna_def split: option.splits)

lemma to_datetime_eq: "to_datetime pt col = map (coerce_datetime pt col) col"
  by (simp add: to_datetime_def coerce_datetime_def)

lemma isna_coerce_datetime: "isna (coerce_datetime pt col c) \<longleftrightarrow> pt col c = None"
  by (auto simp: isna_def coerce_datetime_def split: option.splits)

lemma length_raw_row:
  "4 \<le> length (columns (DataFrame data)) \<Longrightarrow> r \<in> set (raw_rows data) \<Longrightarrow> length r = 4"
  by (auto simp: raw_rows_def DataFrame_def Let_def)

lemma length_raw_rows: "length (raw_rows data) = length data"
  by (simp add: raw_rows_def DataFrame_def Let_def)

lemma get_col_at:
  "index_of name (columns df) = Some i \<Longrightarrow> get_col name df = Inr (map (\<lambda>r. r ! i) (rows df))"
  by (simp add: get_col_def)

lemma set_col_at:
  "index_of name (columns df) = Some i \<Longrightarrow>
   set_col name (map h (rows df)) df =
     \<lparr>columns = columns df, rows = map (\<lambda>r. r[i := h r]) (rows df)\<rparr>"
  by (simp add: set_col_def map_zip_map)

lemma set_col_scalar_new:
  "index_of name (columns df) = None \<Longrightarrow>
   set_col_scalar name v df =
     \<lparr>columns = columns df @ [name], rows = map (\<lambda>r. r @ [v]) (rows df)\<rparr>"
  by (simp add: set_col_scalar_def set_col_def map_zip_replicate)

lemma dropna_at:
  "index_of name (columns df) = Some i \<Longrightarrow>
   dropna name df = Inr \<lparr>columns = columns df, rows = filter (\<lambda>r. \<not> isna (r ! i)) (rows df)\<rparr>"
  by (simp add: dropna_def)

section \<open>The normalizer in closed form\<close>

lemma normalize_rows_no_data: "normalize_rows pn pt location year month [] = Inr empty_frame"
  by (simp add: normalize_rows_def)

lemma normalize_rows_narrow:
  "length (columns (DataFrame data)) < 4 \<Longrightarrow>
   normalize_rows pn pt location year month data = Inr empty_frame"
  by (simp add: normalize_rows_def Let_def)

lemma normalize_rows_wide:
  assumes wide: "4 \<le> length (columns (DataFrame data))"
  shows "normalize_rows pn pt location year month data =
    Inr \<lparr>columns = [''DateTime'', ''Product'', ''Quantity'', ''Amount'', ''Location'',
                    ''Year'', ''Month''],
         rows = map (\<lambda>r. r[3 := coerce_amount pn (r ! 3),
                           0 := coerce_datetime pt (timestamp_col data) (r ! 0)]
                          @ [CStr location, CInt year, CStr month])
                  (filter (\<lambda>r. pt (timestamp_col data) (r ! 0) \<noteq> None) (raw_rows data))\<rparr>"
proof -
  define R where "R = raw_rows data"
  define T where "T = timestamp_col data"
  define A where "A = (\<lambda>r::cell list. r[3 := coerce_amount pn (r ! 3)])"
  define D where "D = (\<lambda>r::cell list. r[0 := coerce_datetime pt T (r ! 0)])"
  define df2 where "df2 = (iloc_cols 4 (DataFrame data))
      \<lparr>columns := [''DateTime'', ''Product'', ''Quantity'', ''Amount'']\<rparr>"
  have ne: "data \<noteq> []" using wide by (auto simp: DataFrame_def)
  have len: "length r = 4" if "r \<in> set R" for r
    using wide that unfolding R_def by (rule length_raw_row)
  have df2: "df2 = \<lparr>columns = [''DateTime'', ''Product'', ''Quantity'', ''Amount''], rows = R\<rparr>"
    by (simp add: df2_def iloc_cols_def R_def raw_rows_def)
  have i3: "index_of ''Amount'' (columns df2) = Some 3" by (simp add: df2)
  have amount: "get_col ''Amount'' df2 = Inr (map (\<lambda>r. r ! 3) R)"
    using get_col_at[OF i3] by (simp add: df2)
  define df3 where
    "df3 = set_col ''Amount'' (fillna (CNum 0) (to_numeric pn (map (\<lambda>r. r ! 3) R))) df2"
  have df3: "df3 = \<lparr>columns = [''DateTime'', ''Product'', ''Quantity'', ''Amount''],
                     rows = map A R\<rparr>"
    using set_col_at[OF i3, of "\<lambda>r. coerce_amount pn (r ! 3)"]
    by (simp add: df3_def fillna_to_numeric df2 A_def o_def)
  have i0: "index_of ''DateTime'' (columns df3) = Some 0" by (simp add: df3)
  have T: "map (\<lambda>r. r ! 0) (map A R) = T"
    by (simp add: T_def timestamp_col_def R_def A_def o_def)
  have datetime: "get_col ''DateTime'' df3 = Inr T"
    using get_col_at[OF i0] T by (simp add: df3)
  define df4 where "df4 = set_col ''DateTime'' (to_datetime pt T) df3"
  have "to_datetime pt T = map (\<lambda>r. coerce_datetime pt T (r ! 0)) (rows df3)"
    by (simp add: to_datetime_eq df3 T[symmetric] o_def)
  then have df4: "df4 = \<lparr>columns = [''DateTime'', ''Product'', ''Quantity'', ''Amount''],
                          rows = map (D \<circ> A) R\<rparr>"
    using set_col_at[OF i0, of "\<lambda>r. coerce_datetime pt T (r ! 0)"]
    by (simp add: df4_def df3 D_def o_def)
  have i0': "index_of ''DateTime'' (columns df4) = Some 0" by (simp add: df4)
  have keep: "filter (\<lambda>r. \<not> isna (r ! 0)) (map (D \<circ> A) R) =
      map (D \<circ> A) (filter (\<lambda>r. pt T (r ! 0) \<noteq> None) R)"
    unfolding filter_map
    by (rule arg_cong[where f = "map (D \<circ> A)"], rule filter_cong)
       (auto simp: D_def A_def isna_coerce_datetime dest: len)
  define df5 where "df5 = \<lparr>columns = [''DateTime'', ''Product'', ''Quantity'', ''Amount''],
      rows = map (D \<circ> A) (filter (\<lambda>r. pt T (r ! 0) \<noteq> None) R)\<rparr>"
  have drop: "dropna ''DateTime'' df4 = Inr df5"
    using dropna_at[OF i0'] by (simp add: df4 df5_def keep)
  have stamp: "set_col_scalar ''Month'' (CStr month)
          (set_col_scalar ''Year'' (CInt year) (set_col_scalar ''Location'' (CStr location) df5)) =
        \<lparr>columns = [''DateTime'', ''Product'', ''Quantity'', ''Amount'', ''Location'',
                    ''Year'', ''Month''],
         rows = map (\<lambda>r. r @ [CStr location, CInt year, CStr month])
                  (map (D \<circ> A) (filter (\<lambda>r. pt T (r ! 0) \<noteq> None) R))\<rparr>"
    by (simp add: set_col_scalar_new df5_def o_def)
  have "normalize_rows pn pt location year month data =
      Inr (set_col_scalar ''Month'' (CStr month)
          (set_col_scalar ''Year'' (CInt year) (set_col_scalar ''Location'' (CStr location) df5)))"
    using ne wide
    by (simp add: normalize_rows_def Let_def and_then_def df2_def[symmetric] amount
          df3_def[symmetric] datetime df4_def[symmetric] drop)
  then show ?thesis
    by (simp add: stamp o_def D_def A_def R_def T_def)
qed

lemma normalize_rows_returns: "\<exists>df. normalize_rows pn pt location year month data = Inr df"
proof (cases "4 \<le> length (columns (DataFrame data))")
  case True
  then show ?thesis by (simp add: normalize_rows_wide)
next
  case False
  then show ?thesis by (simp add: normalize_rows_narrow)
qed

lemma load_sheet_data_fetched:
  "open_and_fetch gc location month = Inr data \<Longrightarrow>
   normalize_rows pn pt location year month data = Inr df \<Longrightarrow>
   load_sheet_data pn pt gc location year month = (df, None)"
  by (simp add: load_sheet_data_def load_sheet_data_body_def and_then_def)

lemma load_sheet_data_failed:
  "open_and_fetch gc location month = Inl e \<Longrightarrow>
   load_sheet_data pn pt gc location year month =
     (empty_frame, Some (error_message location month e))"
  by (simp add: load_sheet_data_def load_sheet_data_body_def and_then_def)

lemmas run_fetch = open_and_fetch_def LOCATIONS_def and_then_def client_of_def fetch_data_def

lemma fetch_two_rows: "open_and_fetch (client_of ws_two_rows) ''Aylesbury'' ''May 25'' = Inr data_two_rows"
  by (simp add: run_fetch ws_two_rows_def)

lemma wide_two_rows: "4 \<le> length (columns (DataFrame data_two_rows))"
  by (simp add: DataFrame_def data_two_rows_def)

lemma unparsable_two_rows: "unparsable_timestamps pt0 data_two_rows = 1"
  by (simp add: unparsable_timestamps_def timestamp_col_def raw_rows_def DataFrame_def data_two_rows_def pt0_def)

lemma count_kept:
  "length (filter (\<lambda>r. pt (timestamp_col data) (r ! 0) \<noteq> None) (raw_rows data)) +
   unparsable_timestamps pt data = length data"
proof -
  have "unparsable_timestamps pt data =
      length (filter (\<lambda>r. \<not> pt (timestamp_col data) (r ! 0) \<noteq> None) (raw_rows data))"
    by (simp add: unparsable_timestamps_def timestamp_col_def filter_map o_def)
  then show ?thesis
    using sum_length_filter_compl[of "\<lambda>r. pt (timestamp_col data) (r ! 0) \<noteq> None" "raw_rows data"]
    by (simp add: length_raw_rows)
qed

section \<open>The row policy of the normalizer\<close>

text \<open>
  C1, with the width condition it needs. For every fetched table with at least four columns, \<open>load_sheet_data\<close>
  reports no error and returns exactly the rows whose timestamp parses, in their order:
  the number of returned rows and the number of rows with an unparsable timestamp add up to
  the number of fetched rows, and the Amount of each returned row is the coerced raw amount,
  which is 0 when coercion fails (\<open>coerce_amount\<close>). A failed amount never removes a row.
\<close>

theorem load_sheet_data_row_policy:
  assumes "open_and_fetch gc location month = Inr data"
    and "4 \<le> length (columns (DataFrame data))"
  shows "snd (load_sheet_data pn pt gc location year month) = None \<and>
    length (rows (fst (load_sheet_data pn pt gc location year month))) +
      unparsable_timestamps pt data = length data \<and>
    map (\<lambda>r. r ! 3) (rows (fst (load_sheet_data pn pt gc location year month))) =
      map (\<lambda>r. coerce_amount pn (r ! 3))
        (filter (\<lambda>r. pt (timestamp_col data) (r ! 0) \<noteq> None) (raw_rows data))"
proof -
  let ?kept = "filter (\<lambda>r. pt (timestamp_col data) (r ! 0) \<noteq> None) (raw_rows data)"
  let ?out = "\<lambda>r. r[3 := coerce_amount pn (r ! 3),
      0 := coerce_datetime pt (timestamp_col data) (r ! 0)] @ [CStr location, CInt year, CStr month]"
  have load: "load_sheet_data pn pt gc location year month =
      (\<lparr>columns = [''DateTime'', ''Product'', ''Quantity'', ''Amount'', ''Location'',
                   ''Year'', ''Month''],
        rows = map ?out ?kept\<rparr>, None)"
    by (rule load_sheet_data_fetched[OF assms(1) normalize_rows_wide[OF assms(2)]])
  have amount: "map (\<lambda>r. r ! 3) (map ?out ?kept) = map (\<lambda>r. coerce_amount pn (r ! 3)) ?kept"
    unfolding map_map
    by (rule map_cong) (auto simp: nth_append dest: length_raw_row[OF assms(2)])
  show ?thesis
    using count_kept[of pt data] amount by (simp add: load)
qed

text \<open>
  Two fetched rows, one with the amount "abc" and one with the timestamp "not-a-date":
  the first is returned with Amount 0, the second is dropped.
\<close>

theorem load_sheet_data_row_policy_witness:
  "open_and_fetch (client_of ws_two_rows) ''Aylesbury'' ''May 25'' = Inr data_two_rows \<and>
   4 \<le> length (columns (DataFrame data_two_rows)) \<and>
   unparsable_timestamps pt0 data_two_rows = 1 \<and>
   snd (load_sheet_data pn0 pt0 (client_of ws_two_rows) ''Aylesbury'' 2025 ''May 25'') = None \<and>
   length (rows (fst (load_sheet_data pn0 pt0 (client_of ws_two_rows) ''Aylesbury'' 2025 ''May 25'')))
     + 1 = length data_two_rows \<and>
   map (\<lambda>r. r ! 3)
     (rows (fst (load_sheet_data pn0 pt0 (client_of ws_two_rows) ''Aylesbury'' 2025 ''May 25''))) =
   [CNum 0]"
proof -
  have amount: "map (\<lambda>r. coerce_amount pn0 (r ! 3))
      (filter (\<lambda>r. pt0 (timestamp_col data_two_rows) (r ! 0) \<noteq> None) (raw_rows data_two_rows))
      = [CNum 0]"
    by (simp add: timestamp_col_def raw_rows_def DataFrame_def data_two_rows_def pt0_def
        coerce_amount_def pn0_def)
  show ?thesis
    using load_sheet_data_row_policy[OF fetch_two_rows wide_two_rows, of pn0 pt0 2025]
      fetch_two_rows wide_two_rows amount
    by (simp add: unparsable_two_rows)
qed

lemma fetch_narrow: "open_and_fetch (client_of ws_narrow) ''Aylesbury'' ''May 25'' = Inr data_narrow"
  by (simp add: run_fetch ws_narrow_def)

lemma columns_narrow: "columns (DataFrame data_narrow) = [''Date'', ''Item'', ''Paid'']"
  by (simp add: DataFrame_def data_narrow_def)

text \<open>
  Without the condition on the width the statement fails: a fetched table of three columns
  and one row, whose timestamp parses, comes back without rows.
\<close>

theorem row_policy_without_width_counterexample:
  "open_and_fetch (client_of ws_narrow) ''Aylesbury'' ''May 25'' = Inr data_narrow \<and>
   length data_narrow = 1 \<and>
   unparsable_timestamps pt0 data_narrow = 0 \<and>
   rows (fst (load_sheet_data pn0 pt0 (client_of ws_narrow) ''Aylesbury'' 2025 ''May 25'')) = []"
proof -
  have "normalize_rows pn0 pt0 ''Aylesbury'' 2025 ''May 25'' data_narrow = Inr empty_frame"
    by (rule normalize_rows_narrow) (simp add: columns_narrow)
  from load_sheet_data_fetched[OF fetch_narrow this]
  have "rows (fst (load_sheet_data pn0 pt0 (client_of ws_narrow) ''Aylesbury'' 2025 ''May 25'')) = []"
    by (simp add: empty_frame_def)
  moreover have "unparsable_timestamps pt0 data_narrow = 0"
    by (simp add: unparsable_timestamps_def timestamp_col_def raw_rows_def DataFrame_def
        data_narrow_def pt0_def)
  moreover have "length data_narrow = 1" by (simp add: data_narrow_def)
  ultimately show ?thesis using fetch_narrow by simp
qed

section \<open>Rejection of narrow tables\<close>

text \<open>
  C6. A fetched table that has fewer than four columns after the cut to the first four is
  answered with the empty table \<^verbatim>\<open>pd.DataFrame()\<close>, which has no columns and no rows,
  and no error is reported.
\<close>

theorem narrow_table_is_rejected:
  assumes "open_and_fetch gc location month = Inr data"
    and "length (columns (iloc_cols 4 (DataFrame data))) < 4"
  shows "load_sheet_data pn pt gc location year month = (empty_frame, None)"
proof -
  have "length (columns (DataFrame data)) < 4"
    using assms(2) by (simp add: iloc_cols_def)
  then have "normalize_rows pn pt location year month data = Inr empty_frame"
    by (rule normalize_rows_narrow)
  with assms(1) show ?thesis by (rule load_sheet_data_fetched)
qed

theorem narrow_table_is_rejected_witness:
  "open_and_fetch (client_of ws_narrow) ''Aylesbury'' ''May 25'' = Inr data_narrow \<and>
   length (columns (iloc_cols 4 (DataFrame data_narrow))) = 3 \<and>
   load_sheet_data pn0 pt0 (client_of ws_narrow) ''Aylesbury'' 2025 ''May 25'' = (empty_frame, None)"
proof -
  have three: "length (columns (iloc_cols 4 (DataFrame data_narrow))) = 3"
    by (simp add: iloc_cols_def columns_narrow)
  then have "length (columns (iloc_cols 4 (DataFrame data_narrow))) < 4" by simp
  from narrow_table_is_rejected[OF fetch_narrow this, of pn0 pt0 2025] three fetch_narrow
  show ?thesis by simp
qed

section \<open>The invariant of the returned table\<close>

text \<open>
  C10. Every non-empty table that \<open>load_sheet_data\<close> returns has exactly the seven columns
  DateTime, Product, Quantity, Amount, Location, Year, Month in this order; in every row the
  Amount is a number, the DateTime is a timestamp and so not null, and Location, Year and Month
  are the components of the requested PeriodKey.
\<close>

theorem load_sheet_data_invariant:
  assumes "load_sheet_data pn pt gc location year month = (df, report)"
    and "\<not> empty df"
  shows "columns df = [''DateTime'', ''Product'', ''Quantity'', ''Amount'', ''Location'',
                       ''Year'', ''Month''] \<and>
    (\<forall>r \<in> set (rows df).
       length r = 7 \<and> (\<exists>v. r ! 3 = CNum v) \<and> (\<exists>t. r ! 0 = CTime t) \<and> \<not> isna (r ! 0) \<and>
       r ! 4 = CStr location \<and> r ! 5 = CInt year \<and> r ! 6 = CStr month)"
proof (cases "open_and_fetch gc location month")
  case (Inl e)
  from load_sheet_data_failed[OF this, of pn pt year] assms show ?thesis
    by (simp add: empty_def empty_frame_def)
next
  case (Inr data)
  show ?thesis
  proof (cases "4 \<le> length (columns (DataFrame data))")
    case False
    then have "normalize_rows pn pt location year month data = Inr empty_frame"
      by (simp add: normalize_rows_narrow)
    from load_sheet_data_fetched[OF Inr this] assms show ?thesis
      by (simp add: empty_def empty_frame_def)
  next
    case True
    let ?kept = "filter (\<lambda>r. pt (timestamp_col data) (r ! 0) \<noteq> None) (raw_rows data)"
    let ?out = "\<lambda>r. r[3 := coerce_amount pn (r ! 3),
        0 := coerce_datetime pt (timestamp_col data) (r ! 0)] @ [CStr location, CInt year, CStr month]"
    from load_sheet_data_fetched[OF Inr normalize_rows_wide[OF True], of pn pt year] assms(1)
    have df: "df = \<lparr>columns = [''DateTime'', ''Product'', ''Quantity'', ''Amount'', ''Location'',
                   ''Year'', ''Month''], rows = map ?out ?kept\<rparr>"
      by simp
    have row: "length (?out r) = 7 \<and> (\<exists>v. ?out r ! 3 = CNum v) \<and> (\<exists>t. ?out r ! 0 = CTime t) \<and>
        \<not> isna (?out r ! 0) \<and> ?out r ! 4 = CStr location \<and> ?out r ! 5 = CInt year \<and>
        ?out r ! 6 = CStr month" if "r \<in> set ?kept" for r
    proof -
      from that have len: "length r = 4" and ok: "pt (timestamp_col data) (r ! 0) \<noteq> None"
        using length_raw_row[OF True] by auto
      from ok obtain t where t: "coerce_datetime pt (timestamp_col data) (r ! 0) = CTime t"
        by (auto simp: coerce_datetime_def)
      obtain v where v: "coerce_amount pn (r ! 3) = CNum v"
        by (cases "pn (r ! 3)") (auto simp: coerce_amount_def)
      show ?thesis using len t v by (simp add: nth_append isna_def)
    qed
    show ?thesis unfolding df using row by simp
  qed
qed

lemma fetch_duplicates:
  "open_and_fetch (client_of ws_duplicates) ''Aylesbury'' ''May 25'' =
     Inr [[(''Date'', CStr ''2025-05-01''), (''Item'', CStr ''A''), (''Qty'', CStr ''1''),
           (''Paid'', CStr ''12.50'')]]"
  by (simp add: run_fetch ws_duplicates_def grid_duplicates_def raw_grid_data_def
      clean_headers_of_def row_dict_of_def sublist_code prefix_code)

lemma load_duplicates:
  "load_sheet_data pn0 pt0 (client_of ws_duplicates) ''Aylesbury'' 2025 ''May 25'' =
     (\<lparr>columns = [''DateTime'', ''Product'', ''Quantity'', ''Amount'', ''Location'',
                  ''Year'', ''Month''],
       rows = [[CTime 1746057600, CStr ''A'', CStr ''1'', CNum (25 / 2), CStr ''Aylesbury'',
                CInt 2025, CStr ''May 25'']]\<rparr>, None)"
proof -
  let ?data = "[[(''Date'', CStr ''2025-05-01''), (''Item'', CStr ''A''), (''Qty'', CStr ''1''),
           (''Paid'', CStr ''12.50'')]]"
  have wide: "4 \<le> length (columns (DataFrame ?data))"
    by (simp add: DataFrame_def)
  show ?thesis
    unfolding load_sheet_data_fetched[OF fetch_duplicates normalize_rows_wide[OF wide]]
    by (simp add: timestamp_col_def raw_rows_def DataFrame_def pt0_def pn0_def
        coerce_amount_def coerce_datetime_def)
qed

text \<open>The table built from the raw grid of one data row satisfies the invariant.\<close>

theorem load_sheet_data_invariant_witness:
  "load_sheet_data pn0 pt0 (client_of ws_duplicates) ''Aylesbury'' 2025 ''May 25'' =
     (\<lparr>columns = [''DateTime'', ''Product'', ''Quantity'', ''Amount'', ''Location'',
                  ''Year'', ''Month''],
       rows = [[CTime 1746057600, CStr ''A'', CStr ''1'', CNum (25 / 2), CStr ''Aylesbury'',
                CInt 2025, CStr ''May 25'']]\<rparr>, None) \<and>
   \<not> empty \<lparr>columns = [''DateTime'', ''Product'', ''Quantity'', ''Amount'', ''Location'',
                  ''Year'', ''Month''],
       rows = [[CTime 1746057600, CStr ''A'', CStr ''1'', CNum (25 / 2), CStr ''Aylesbury'',
                CInt 2025, CStr ''May 25'']]\<rparr> \<and>
   length [CTime 1746057600, CStr ''A'', CStr ''1'', CNum (25 / 2), CStr ''Aylesbury'',
                CInt 2025, CStr ''May 25''] = 7"
proof -
  let ?df = "\<lparr>columns = [''DateTime'', ''Product'', ''Quantity'', ''Amount'', ''Location'',
                  ''Year'', ''Month''],
       rows = [[CTime 1746057600, CStr ''A'', CStr ''1'', CNum (25 / 2), CStr ''Aylesbury'',
                CInt 2025, CStr ''May 25'']]\<rparr>"
  have ne: "\<not> empty ?df" by (simp add: empty_def)
  from load_sheet_data_invariant[OF load_duplicates ne] load_duplicates ne
  show ?thesis by simp
qed

section \<open>Exceptions stay inside load_sheet_data\<close>

lemma load_sheet_data_returned:
  "open_and_fetch gc location month = Inr data \<Longrightarrow>
   snd (load_sheet_data pn pt gc location year month) = None \<and>
   Inr (fst (load_sheet_data pn pt gc location year month)) =
     normalize_rows pn pt location year month data"
  using normalize_rows_returns[of pn pt location year month data]
  by (auto simp: load_sheet_data_def load_sheet_data_body_def and_then_def)

text \<open>
  C2, with the recovered case set apart. \<open>load_sheet_data\<close> never raises past its boundary: whatever the remote
  source does, it returns a table. The cases are exhaustive. An exception that leaves the
  \<^verbatim>\<open>try\<close> block (the location is not in the registry; \<^verbatim>\<open>gc.open\<close> raises;
  \<^verbatim>\<open>sheet.worksheet\<close> raises; \<^verbatim>\<open>get_all_records\<close> raises with a message
  without "duplicates"; \<^verbatim>\<open>get_all_values\<close> raises in the fallback) gives the empty table
  and the reported error. When \<^verbatim>\<open>get_all_records\<close> raises with "duplicates" in its
  message and \<^verbatim>\<open>get_all_values\<close> succeeds, the failure is recovered: the table
  normalized from the raw grid is returned and nothing is reported, as when
  \<^verbatim>\<open>get_all_records\<close> succeeds.
\<close>

theorem load_sheet_data_never_raises:
  "(map_of LOCATIONS location = None \<longrightarrow>
      load_sheet_data pn pt gc location year month =
        (empty_frame, Some (error_message location month (KeyError location)))) \<and>
   (map_of LOCATIONS location = Some cfg \<and> gc (sheet_name cfg) = Inl e \<longrightarrow>
      load_sheet_data pn pt gc location year month =
        (empty_frame, Some (error_message location month e))) \<and>
   (map_of LOCATIONS location = Some cfg \<and> gc (sheet_name cfg) = Inr sheet \<and>
    sheet month = Inl e \<longrightarrow>
      load_sheet_data pn pt gc location year month =
        (empty_frame, Some (error_message location month e))) \<and>
   (map_of LOCATIONS location = Some cfg \<and> gc (sheet_name cfg) = Inr sheet \<and>
    sheet month = Inr ws \<and> get_all_records ws = Inl e \<and> \<not> sublist ''duplicates'' (str e) \<longrightarrow>
      load_sheet_data pn pt gc location year month =
        (empty_frame, Some (error_message location month e))) \<and>
   (map_of LOCATIONS location = Some cfg \<and> gc (sheet_name cfg) = Inr sheet \<and>
    sheet month = Inr ws \<and> get_all_records ws = Inl e' \<and> sublist ''duplicates'' (str e') \<and>
    get_all_values ws = Inl e \<longrightarrow>
      load_sheet_data pn pt gc location year month =
        (empty_frame, Some (error_message location month e))) \<and>
   (map_of LOCATIONS location = Some cfg \<and> gc (sheet_name cfg) = Inr sheet \<and>
    sheet month = Inr ws \<and> get_all_records ws = Inl e' \<and> sublist ''duplicates'' (str e') \<and>
    get_all_values ws = Inr all_values \<longrightarrow>
      snd (load_sheet_data pn pt gc location year month) = None \<and>
      Inr (fst (load_sheet_data pn pt gc location year month)) =
        normalize_rows pn pt location year month (raw_grid_data all_values)) \<and>
   (map_of LOCATIONS location = Some cfg \<and> gc (sheet_name cfg) = Inr sheet \<and>
    sheet month = Inr ws \<and> get_all_records ws = Inr data \<longrightarrow>
      snd (load_sheet_data pn pt gc location year month) = None \<and>
      Inr (fst (load_sheet_data pn pt gc location year month)) =
        normalize_rows pn pt location year month data)"
proof -
  have 1: "load_sheet_data pn pt gc location year month =
        (empty_frame, Some (error_message location month (KeyError location)))"
    if "map_of LOCATIONS location = None"
    by (rule load_sheet_data_failed) (simp add: open_and_fetch_def that)
  have 2: "load_sheet_data pn pt gc location year month =
        (empty_frame, Some (error_message location month e))"
    if "map_of LOCATIONS location = Some cfg" "gc (sheet_name cfg) = Inl e"
    by (rule load_sheet_data_failed) (simp add: open_and_fetch_def and_then_def that)
  have 3: "load_sheet_data pn pt gc location year month =
        (empty_frame, Some (error_message location month e))"
    if "map_of LOCATIONS location = Some cfg" "gc (sheet_name cfg) = Inr sheet" "sheet month = Inl e"
    by (rule load_sheet_data_failed) (simp add: open_and_fetch_def and_then_def that)
  have 4: "load_sheet_data pn pt gc location year month =
        (empty_frame, Some (error_message location month e))"
    if "map_of LOCATIONS location = Some cfg" "gc (sheet_name cfg) = Inr sheet"
      "sheet month = Inr ws" "get_all_records ws = Inl e" "\<not> sublist ''duplicates'' (str e)"
    by (rule load_sheet_data_failed)
       (simp add: open_and_fetch_def and_then_def fetch_data_def that)
  have 5: "load_sheet_data pn pt gc location year month =
        (empty_frame, Some (error_message location month e))"
    if "map_of LOCATIONS location = Some cfg" "gc (sheet_name cfg) = Inr sheet"
      "sheet month = Inr ws" "get_all_records ws = Inl e'" "sublist ''duplicates'' (str e')"
      "get_all_values ws = Inl e"
    by (rule load_sheet_data_failed)
       (simp add: open_and_fetch_def and_then_def fetch_data_def that)
  have 6: "snd (load_sheet_data pn pt gc location year month) = None \<and>
      Inr (fst (load_sheet_data pn pt gc location year month)) =
        normalize_rows pn pt location year month (raw_grid_data all_values)"
    if "map_of LOCATIONS location = Some cfg" "gc (sheet_name cfg) = Inr sheet"
      "sheet month = Inr ws" "get_all_records ws = Inl e'" "sublist ''duplicates'' (str e')"
      "get_all_values ws = Inr all_values"
    by (rule load_sheet_data_returned)
       (simp add: open_and_fetch_def and_then_def fetch_data_def that)
  have 7: "snd (load_sheet_data pn pt gc location year month) = None \<and>
      Inr (fst (load_sheet_data pn pt gc location year month)) =
        normalize_rows pn pt location year month data"
    if "map_of LOCATIONS location = Some cfg" "gc (sheet_name cfg) = Inr sheet"
      "sheet month = Inr ws" "get_all_records ws = Inr data"
    by (rule load_sheet_data_returned)
       (simp add: open_and_fetch_def and_then_def fetch_data_def that)
  show ?thesis
    using 1 2 3 4 5 6 7 by blast
qed

lemma aylesbury: "map_of LOCATIONS ''Aylesbury'' = Some aylesbury_cfg"
  by (simp add: LOCATIONS_def aylesbury_cfg_def)

lemma oxford_east: "map_of LOCATIONS ''Oxford East'' = Some oxford_east_cfg"
  by (simp add: LOCATIONS_def oxford_east_cfg_def)

lemma open_aylesbury: "client_of ws (sheet_name aylesbury_cfg) = Inr (sheet_of ws)"
  by (simp add: client_of_def sheet_of_def aylesbury_cfg_def fun_eq_iff)

lemma has_duplicates:
  "sublist ''duplicates'' (str (Exception ''the header row in the worksheet contains duplicates''))"
  by (simp add: sublist_code prefix_code)

lemma no_duplicates: "\<not> sublist ''duplicates'' (str (Exception ''APIError''))"
  by (simp add: sublist_code prefix_code)

text \<open>
  One input for each case: an unknown location, a spreadsheet that cannot be opened, a
  missing tab, a retrieval error of another kind, a failing fallback, the recovered
  "duplicates" error, and a successful retrieval.
\<close>

theorem load_sheet_data_never_raises_witness:
  "(map_of LOCATIONS ''Nowhere'' = None \<and>
    load_sheet_data pn0 pt0 (client_of ws_two_rows) ''Nowhere'' 2025 ''May 25'' =
      (empty_frame, Some (error_message ''Nowhere'' ''May 25'' (KeyError ''Nowhere'')))) \<and>
   (map_of LOCATIONS ''Oxford East'' = Some oxford_east_cfg \<and>
    client_of ws_two_rows (sheet_name oxford_east_cfg) =
      Inl (Exception ''Oxford East Monthly Tracker'') \<and>
    load_sheet_data pn0 pt0 (client_of ws_two_rows) ''Oxford East'' 2025 ''May 25'' =
      (empty_frame,
       Some (error_message ''Oxford East'' ''May 25'' (Exception ''Oxford East Monthly Tracker'')))) \<and>
   (map_of LOCATIONS ''Aylesbury'' = Some aylesbury_cfg \<and>
    client_of ws_two_rows (sheet_name aylesbury_cfg) = Inr (sheet_of ws_two_rows) \<and>
    sheet_of ws_two_rows ''Jun 25'' = Inl (Exception ''Jun 25'') \<and>
    load_sheet_data pn0 pt0 (client_of ws_two_rows) ''Aylesbury'' 2025 ''Jun 25'' =
      (empty_frame, Some (error_message ''Aylesbury'' ''Jun 25'' (Exception ''Jun 25'')))) \<and>
   (sheet_of ws_api_error ''May 25'' = Inr ws_api_error \<and>
    get_all_records ws_api_error = Inl (Exception ''APIError'') \<and>
    \<not> sublist ''duplicates'' (str (Exception ''APIError'')) \<and>
    load_sheet_data pn0 pt0 (client_of ws_api_error) ''Aylesbury'' 2025 ''May 25'' =
      (empty_frame, Some (error_message ''Aylesbury'' ''May 25'' (Exception ''APIError'')))) \<and>
   (sheet_of ws_duplicates_then_error ''May 25'' = Inr ws_duplicates_then_error \<and>
    get_all_records ws_duplicates_then_error =
      Inl (Exception ''the header row in the worksheet contains duplicates'') \<and>
    sublist ''duplicates'' (str (Exception ''the header row in the worksheet contains duplicates'')) \<and>
    get_all_values ws_duplicates_then_error = Inl (Exception ''ConnectionError'') \<and>
    load_sheet_data pn0 pt0 (client_of ws_duplicates_then_error) ''Aylesbury'' 2025 ''May 25'' =
      (empty_frame, Some (error_message ''Aylesbury'' ''May 25'' (Exception ''ConnectionError'')))) \<and>
   (sheet_of ws_duplicates ''May 25'' = Inr ws_duplicates \<and>
    get_all_records ws_duplicates =
      Inl (Exception ''the header row in the worksheet contains duplicates'') \<and>
    get_all_values ws_duplicates = Inr grid_duplicates \<and>
    snd (load_sheet_data pn0 pt0 (client_of ws_duplicates) ''Aylesbury'' 2025 ''May 25'') = None \<and>
    Inr (fst (load_sheet_data pn0 pt0 (client_of ws_duplicates) ''Aylesbury'' 2025 ''May 25'')) =
      normalize_rows pn0 pt0 ''Aylesbury'' 2025 ''May 25'' (raw_grid_data grid_duplicates)) \<and>
   (sheet_of ws_two_rows ''May 25'' = Inr ws_two_rows \<and>
    get_all_records ws_two_rows = Inr data_two_rows \<and>
    snd (load_sheet_data pn0 pt0 (client_of ws_two_rows) ''Aylesbury'' 2025 ''May 25'') = None \<and>
    Inr (fst (load_sheet_data pn0 pt0 (client_of ws_two_rows) ''Aylesbury'' 2025 ''May 25'')) =
      normalize_rows pn0 pt0 ''Aylesbury'' 2025 ''May 25'' data_two_rows)"
proof -
  have nowhere: "map_of LOCATIONS ''Nowhere'' = None"
    by (simp add: LOCATIONS_def)
  have closed: "client_of ws_two_rows (sheet_name oxford_east_cfg) =
      Inl (Exception ''Oxford East Monthly Tracker'')"
    by (simp add: client_of_def oxford_east_cfg_def)
  have tab: "sheet_of ws ''May 25'' = Inr ws" for ws
    by (simp add: sheet_of_def)
  have no_tab: "sheet_of ws_two_rows ''Jun 25'' = Inl (Exception ''Jun 25'')"
    by (simp add: sheet_of_def)
  have api: "get_all_records ws_api_error = Inl (Exception ''APIError'')"
    by (simp add: ws_api_error_def)
  have dup_err: "get_all_records ws_duplicates_then_error =
      Inl (Exception ''the header row in the worksheet contains duplicates'')"
    "get_all_values ws_duplicates_then_error = Inl (Exception ''ConnectionError'')"
    by (simp_all add: ws_duplicates_then_error_def)
  have dup: "get_all_records ws_duplicates =
      Inl (Exception ''the header row in the worksheet contains duplicates'')"
    "get_all_values ws_duplicates = Inr grid_duplicates"
    by (simp_all add: ws_duplicates_def)
  have two: "get_all_records ws_two_rows = Inr data_two_rows"
    by (simp add: ws_two_rows_def)
  note inst = load_sheet_data_never_raises[where pn = pn0 and pt = pt0 and year = 2025]
  have c1: "load_sheet_data pn0 pt0 (client_of ws_two_rows) ''Nowhere'' 2025 ''May 25'' =
      (empty_frame, Some (error_message ''Nowhere'' ''May 25'' (KeyError ''Nowhere'')))"
    using inst[where location = "''Nowhere''" and gc = "client_of ws_two_rows" and month = "''May 25''"]
      nowhere by blast
  have c2: "load_sheet_data pn0 pt0 (client_of ws_two_rows) ''Oxford East'' 2025 ''May 25'' =
      (empty_frame,
       Some (error_message ''Oxford East'' ''May 25'' (Exception ''Oxford East Monthly Tracker'')))"
    using inst[where location = "''Oxford East''" and gc = "client_of ws_two_rows"
        and month = "''May 25''" and cfg = oxford_east_cfg
        and e = "Exception ''Oxford East Monthly Tracker''"]
      oxford_east closed by blast
  have c3: "load_sheet_data pn0 pt0 (client_of ws_two_rows) ''Aylesbury'' 2025 ''Jun 25'' =
      (empty_frame, Some (error_message ''Aylesbury'' ''Jun 25'' (Exception ''Jun 25'')))"
    using inst[where location = "''Aylesbury''" and gc = "client_of ws_two_rows"
        and month = "''Jun 25''" and cfg = aylesbury_cfg and sheet = "sheet_of ws_two_rows"
        and e = "Exception ''Jun 25''"]
      aylesbury open_aylesbury no_tab by blast
  have c4: "load_sheet_data pn0 pt0 (client_of ws_api_error) ''Aylesbury'' 2025 ''May 25'' =
      (empty_frame, Some (error_message ''Aylesbury'' ''May 25'' (Exception ''APIError'')))"
    using inst[where location = "''Aylesbury''" and gc = "client_of ws_api_error"
        and month = "''May 25''" and cfg = aylesbury_cfg and sheet = "sheet_of ws_api_error"
        and ws = ws_api_error and e = "Exception ''APIError''"]
      aylesbury open_aylesbury tab api no_duplicates by blast
  have c5: "load_sheet_data pn0 pt0 (client_of ws_duplicates_then_error) ''Aylesbury'' 2025 ''May 25'' =
      (empty_frame, Some (error_message ''Aylesbury'' ''May 25'' (Exception ''ConnectionError'')))"
    using inst[where location = "''Aylesbury''" and gc = "client_of ws_duplicates_then_error"
        and month = "''May 25''" and cfg = aylesbury_cfg
        and sheet = "sheet_of ws_duplicates_then_error" and ws = ws_duplicates_then_error
        and e' = "Exception ''the header row in the worksheet contains duplicates''"
        and e = "Exception ''ConnectionError''"]
      aylesbury open_aylesbury tab dup_err has_duplicates by blast
  have c6: "snd (load_sheet_data pn0 pt0 (client_of ws_duplicates) ''Aylesbury'' 2025 ''May 25'') = None \<and>
    Inr (fst (load_sheet_data pn0 pt0 (client_of ws_duplicates) ''Aylesbury'' 2025 ''May 25'')) =
      normalize_rows pn0 pt0 ''Aylesbury'' 2025 ''May 25'' (raw_grid_data grid_duplicates)"
    using inst[where location = "''Aylesbury''" and gc = "client_of ws_duplicates"
        and month = "''May 25''" and cfg = aylesbury_cfg
        and sheet = "sheet_of ws_duplicates" and ws = ws_duplicates
        and e' = "Exception ''the header row in the worksheet contains duplicates''"
        and all_values = grid_duplicates]
      aylesbury open_aylesbury tab dup has_duplicates by blast
  have c7: "snd (load_sheet_data pn0 pt0 (client_of ws_two_rows) ''Aylesbury'' 2025 ''May 25'') = None \<and>
    Inr (fst (load_sheet_data pn0 pt0 (client_of ws_two_rows) ''Aylesbury'' 2025 ''May 25'')) =
      normalize_rows pn0 pt0 ''Aylesbury'' 2025 ''May 25'' data_two_rows"
    using inst[where location = "''Aylesbury''" and gc = "client_of ws_two_rows"
        and month = "''May 25''" and cfg = aylesbury_cfg
        and sheet = "sheet_of ws_two_rows" and ws = ws_two_rows and data = data_two_rows]
      aylesbury open_aylesbury tab two by blast
  show ?thesis
    using nowhere oxford_east closed aylesbury open_aylesbury tab no_tab api no_duplicates
      dup_err has_duplicates dup two c1 c2 c3 c4 c5 c6 c7
    by simp
qed

text \<open>
  Not every failing remote call ends in the empty table: in the recovered case the
  header-keyed retrieval raises, and yet the returned table has a row and no error is
  reported.
\<close>

theorem recovered_failure_counterexample:
  "get_all_records ws_duplicates =
     Inl (Exception ''the header row in the worksheet contains duplicates'') \<and>
   load_sheet_data pn0 pt0 (client_of ws_duplicates) ''Aylesbury'' 2025 ''May 25'' =
     (\<lparr>columns = [''DateTime'', ''Product'', ''Quantity'', ''Amount'', ''Location'',
                  ''Year'', ''Month''],
       rows = [[CTime 1746057600, CStr ''A'', CStr ''1'', CNum (25 / 2), CStr ''Aylesbury'',
                CInt 2025, CStr ''May 25'']]\<rparr>, None)"
  using load_duplicates by (simp add: ws_duplicates_def)

section \<open>A period without data\<close>

lemma fetch_zero_data_rows: "zero_data_rows ws \<Longrightarrow> fetch_data ws = Inr []"
  by (auto simp: zero_data_rows_def fetch_data_def and_then_def raw_grid_data_def
      split: sum.splits)

text \<open>
  C7. On the empty table the aggregator returns total_revenue 0, transaction_count 0,
  avg_transaction 0, unique_products 0, daily_average 0 and top_product "N/A". And for
  every valid PeriodKey whose tab opens and has zero data rows, \<open>load_sheet_data\<close>
  returns the empty table and reports no error.
\<close>

theorem no_data_gives_empty_table_and_zero_metrics:
  "calculate_revenue_metrics [] =
     \<lparr>total_revenue = 0, transaction_count = 0, avg_transaction = 0, unique_products = 0,
      top_product = ''N/A'', daily_average = 0\<rparr> \<and>
   (valid_period_key location year month \<and> map_of LOCATIONS location = Some cfg \<and>
    gc (sheet_name cfg) = Inr sheet \<and> sheet month = Inr ws \<and> zero_data_rows ws \<longrightarrow>
      load_sheet_data pn pt gc location year month = (empty_frame, None))"
proof -
  have "load_sheet_data pn pt gc location year month = (empty_frame, None)"
    if "map_of LOCATIONS location = Some cfg" "gc (sheet_name cfg) = Inr sheet"
      "sheet month = Inr ws" "zero_data_rows ws"
  proof -
    have "open_and_fetch gc location month = Inr []"
      using that by (simp add: open_and_fetch_def and_then_def fetch_zero_data_rows)
    then show ?thesis
      using normalize_rows_no_data by (rule load_sheet_data_fetched)
  qed
  then show ?thesis
    by (simp add: calculate_revenue_metrics_def)
qed

lemma valid_aylesbury_may_25: "valid_period_key ''Aylesbury'' 2025 ''May 25''"
  by (simp add: valid_period_key_def LOCATIONS_def)

text \<open>
  Two tabs of Aylesbury, May 25, without data rows: one answers the header-keyed retrieval
  with no record, the other raises the "duplicates" error and has a grid of the header alone.
\<close>

theorem no_data_gives_empty_table_and_zero_metrics_witness:
  "valid_period_key ''Aylesbury'' 2025 ''May 25'' \<and>
   map_of LOCATIONS ''Aylesbury'' = Some aylesbury_cfg \<and>
   client_of ws_no_rows (sheet_name aylesbury_cfg) = Inr (sheet_of ws_no_rows) \<and>
   sheet_of ws_no_rows ''May 25'' = Inr ws_no_rows \<and>
   zero_data_rows ws_no_rows \<and>
   load_sheet_data pn0 pt0 (client_of ws_no_rows) ''Aylesbury'' 2025 ''May 25'' =
     (empty_frame, None) \<and>
   client_of ws_duplicates_header_only (sheet_name aylesbury_cfg) =
     Inr (sheet_of ws_duplicates_header_only) \<and>
   sheet_of ws_duplicates_header_only ''May 25'' = Inr ws_duplicates_header_only \<and>
   zero_data_rows ws_duplicates_header_only \<and>
   load_sheet_data pn0 pt0 (client_of ws_duplicates_header_only) ''Aylesbury'' 2025 ''May 25'' =
     (empty_frame, None)"
proof -
  have tab: "sheet_of ws ''May 25'' = Inr ws" for ws
    by (simp add: sheet_of_def)
  have zero1: "zero_data_rows ws_no_rows"
    by (simp add: zero_data_rows_def ws_no_rows_def)
  have zero2: "zero_data_rows ws_duplicates_header_only"
    by (simp add: zero_data_rows_def ws_duplicates_header_only_def sublist_code prefix_code)
  have "load_sheet_data pn0 pt0 (client_of ws_no_rows) ''Aylesbury'' 2025 ''May 25'' =
     (empty_frame, None)"
    using no_data_gives_empty_table_and_zero_metrics[where location = "''Aylesbury''"
        and year = 2025 and month = "''May 25''" and cfg = aylesbury_cfg
        and gc = "client_of ws_no_rows" and sheet = "sheet_of ws_no_rows" and ws = ws_no_rows
        and pn = pn0 and pt = pt0]
      valid_aylesbury_may_25 aylesbury open_aylesbury tab zero1 by blast
  moreover have "load_sheet_data pn0 pt0 (client_of ws_duplicates_header_only) ''Aylesbury''
      2025 ''May 25'' = (empty_frame, None)"
    using no_data_gives_empty_table_and_zero_metrics[where location = "''Aylesbury''"
        and year = 2025 and month = "''May 25''" and cfg = aylesbury_cfg
        and gc = "client_of ws_duplicates_header_only"
        and sheet = "sheet_of ws_duplicates_header_only" and ws = ws_duplicates_header_only
        and pn = pn0 and pt = pt0]
      valid_aylesbury_may_25 aylesbury open_aylesbury tab zero2 by blast
  ultimately show ?thesis
    using valid_aylesbury_may_25 aylesbury open_aylesbury tab zero1 zero2 by simp
qed

section \<open>The raw-grid fallback\<close>

lemma dict_set_new: "k \<notin> fst ` set d \<Longrightarrow> dict_set k v d = d @ [(k, v)]"
  by (induction d) auto

lemma foldl_dict_set_distinct:
  "distinct (map fst ps) \<Longrightarrow> fst ` set ps \<inter> fst ` set d = {} \<Longrightarrow>
   foldl (\<lambda>d (k, v). dict_set k v d) d ps = d @ ps"
proof (induction ps arbitrary: d)
  case Nil
  then show ?case by simp
next
  case (Cons p ps)
  obtain k v where p: "p = (k, v)" by (cases p)
  from Cons.prems have new: "k \<notin> fst ` set d" by (auto simp: p)
  have "foldl (\<lambda>d (k, v). dict_set k v d) (d @ [(k, v)]) ps = (d @ [(k, v)]) @ ps"
    using Cons.prems by (intro Cons.IH) (auto simp: p)
  then show ?case by (simp add: p dict_set_new[OF new])
qed

lemma dict_of_distinct: "distinct (map fst ps) \<Longrightarrow> dict_of ps = ps"
  using foldl_dict_set_distinct[of ps "[]"] by (simp add: dict_of_def)

lemma enumerate_cells:
  "length hs \<le> length row \<Longrightarrow>
   map (\<lambda>(i, h). (h, if i < length row then CStr (row ! i) else CStr [])) (enumerate 0 hs) =
   zip hs (map CStr row)"
  by (rule nth_equalityI) (auto simp: nth_enumerate_eq)

lemma row_dict_of_zip:
  assumes "length hs \<le> length row"
  shows "row_dict_of hs row = dict_of (zip hs (map CStr row))"
proof -
  have "row_dict_of hs row =
      foldl (\<lambda>d (k, v). dict_set k v d) []
        (map (\<lambda>(i, h). (h, if i < length row then CStr (row ! i) else CStr [])) (enumerate 0 hs))"
    unfolding row_dict_of_def foldl_map
    by (rule arg_cong[where f = "\<lambda>f. foldl f [] (enumerate 0 hs)"]) (auto simp: fun_eq_iff)
  then show ?thesis
    by (simp add: enumerate_cells[OF assms] dict_of_def)
qed

lemma clean_headers_of_take: "clean_headers_of headers = take 4 headers"
  by (simp add: clean_headers_of_def)

text \<open>
  C5, with short rows skipped rather than padded. In the raw-grid fallback, for every grid with at least one data row, the
  header is cut to its first four labels; a data row that is at least as long as the cut
  header yields one record, the dict of the row zipped against the cut header (the zip
  itself, when the cut header has no repeated label); a data row shorter than the cut header
  is skipped and yields no record; nothing is ever padded. So every data row yields one
  record exactly when no data row is shorter than the cut header.
\<close>

theorem raw_grid_fallback:
  assumes "1 < length all_values"
  shows "raw_grid_data all_values =
      map (\<lambda>row. dict_of (zip (take 4 (hd all_values)) (map CStr row)))
        (filter (\<lambda>row. length (take 4 (hd all_values)) \<le> length row) (tl all_values)) \<and>
    (distinct (take 4 (hd all_values)) \<longrightarrow>
      raw_grid_data all_values =
        map (\<lambda>row. zip (take 4 (hd all_values)) (map CStr row))
          (filter (\<lambda>row. length (take 4 (hd all_values)) \<le> length row) (tl all_values))) \<and>
    ((\<forall>row \<in> set (tl all_values). length (take 4 (hd all_values)) \<le> length row) \<longleftrightarrow>
      length (raw_grid_data all_values) = length (tl all_values))"
proof -
  let ?hs = "take 4 (hd all_values)"
  let ?kept = "filter (\<lambda>row. length ?hs \<le> length row) (tl all_values)"
  have grid: "raw_grid_data all_values = map (row_dict_of ?hs) ?kept"
    using assms by (simp add: raw_grid_data_def Let_def clean_headers_of_take)
  have dict: "map (row_dict_of ?hs) ?kept = map (\<lambda>row. dict_of (zip ?hs (map CStr row))) ?kept"
    by (rule map_cong) (auto simp: row_dict_of_zip)
  have "map (\<lambda>row. dict_of (zip ?hs (map CStr row))) ?kept =
      map (\<lambda>row. zip ?hs (map CStr row)) ?kept" if "distinct ?hs"
  proof (rule map_cong)
    fix row assume "row \<in> set ?kept"
    then have "map fst (zip ?hs (map CStr row)) = ?hs"
      by (simp add: map_fst_zip_take min_def)
    with that show "dict_of (zip ?hs (map CStr row)) = zip ?hs (map CStr row)"
      by (simp add: dict_of_distinct)
  qed simp
  moreover have "(\<forall>row \<in> set (tl all_values). length ?hs \<le> length row) \<longleftrightarrow>
      length ?kept = length (tl all_values)"
    by (metis filter_True length_filter_less less_irrefl)
  ultimately show ?thesis
    by (simp add: grid dict del: length_take)
qed

text \<open>
  A header of six labels, of which the first four are kept, and one data row of six cells.
\<close>

theorem raw_grid_fallback_witness:
  "1 < length grid_duplicates \<and>
   distinct (take 4 (hd grid_duplicates)) \<and>
   length (raw_grid_data grid_duplicates) = length (tl grid_duplicates) \<and>
   raw_grid_data grid_duplicates =
     [[(''Date'', CStr ''2025-05-01''), (''Item'', CStr ''A''), (''Qty'', CStr ''1''),
       (''Paid'', CStr ''12.50'')]]"
proof -
  have len: "1 < length grid_duplicates" by (simp add: grid_duplicates_def)
  have dist: "distinct (take 4 (hd grid_duplicates))" by (simp add: grid_duplicates_def)
  have long: "\<forall>row \<in> set (tl grid_duplicates). length (take 4 (hd grid_duplicates)) \<le> length row"
    by (simp add: grid_duplicates_def)
  have zipped: "map (\<lambda>row. zip (take 4 (hd grid_duplicates)) (map CStr row))
          (filter (\<lambda>row. length (take 4 (hd grid_duplicates)) \<le> length row) (tl grid_duplicates))
      = [[(''Date'', CStr ''2025-05-01''), (''Item'', CStr ''A''), (''Qty'', CStr ''1''),
       (''Paid'', CStr ''12.50'')]]"
    by (simp add: grid_duplicates_def)
  from raw_grid_fallback[OF len] dist
  have eq: "raw_grid_data grid_duplicates =
      map (\<lambda>row. zip (take 4 (hd grid_duplicates)) (map CStr row))
        (filter (\<lambda>row. length (take 4 (hd grid_duplicates)) \<le> length row) (tl grid_duplicates))"
    by blast
  from raw_grid_fallback[OF len] long
  have n: "length (raw_grid_data grid_duplicates) = length (tl grid_duplicates)"
    by blast
  have "raw_grid_data grid_duplicates =
     [[(''Date'', CStr ''2025-05-01''), (''Item'', CStr ''A''), (''Qty'', CStr ''1''),
       (''Paid'', CStr ''12.50'')]]"
    by (simp only: eq zipped)
  with len dist n show ?thesis by blast
qed

text \<open>
  A data row shorter than the cut header is not padded: the grid has one data row and the
  fallback yields no record.
\<close>

theorem short_row_counterexample:
  "1 < length grid_short_row \<and> length (tl grid_short_row) = 1 \<and>
   raw_grid_data grid_short_row = []"
  by (simp add: grid_short_row_def raw_grid_data_def clean_headers_of_def)

section \<open>The aggregator\<close>

text \<open>
  C3. For every table the aggregator's daily_average is its total_revenue, the sum of the
  amounts, divided by the constant 30; neither the timestamps nor the period enter.
\<close>

theorem daily_average_is_total_by_30:
  "total_revenue (calculate_revenue_metrics df) = sum_list (map Amount df) \<and>
   daily_average (calculate_revenue_metrics df) =
     total_revenue (calculate_revenue_metrics df) / 30"
  by (simp add: calculate_revenue_metrics_def Let_def)

subsection \<open>The top product\<close>








subsection \<open>What the aggregator reads\<close>





section \<open>The product breakdown\<close>













end
